theory Spec2Isabelle
  imports Complex_Main
begin

section \<open>Configuration\<close>

text \<open>
  The constants of \<^verbatim>\<open>nig_gym_occupancy_webapp.py\<close>, lines 16 to 18:
  \<^verbatim>\<open>MAX_SESSION_DUR = 180\<close>, \<^verbatim>\<open>MAX_CAPACITY = 2\<close>, \<^verbatim>\<open>TIMEZONE_OFFSET = +9.0\<close>.
\<close>

definition MAX_SESSION_DUR :: int where
  "MAX_SESSION_DUR = 180"

definition MAX_CAPACITY :: nat where
  "MAX_CAPACITY = 2"

definition TIMEZONE_OFFSET :: int where
  "TIMEZONE_OFFSET = 9"

section \<open>Time\<close>

text \<open>
  A naive \<^verbatim>\<open>datetime\<close> is the number of microseconds since 1970-01-01 00:00:00, a
  \<^verbatim>\<open>timedelta\<close> a signed number of microseconds (the resolution of both Python types).
  The system clock \<^verbatim>\<open>datetime.datetime.utcnow()\<close> is an argument of the model; it is
  taken far enough from the year 9999 for the clock plus nine hours to be a datetime.
\<close>

type_synonym datetime = int
type_synonym timedelta = int

definition timedelta_hours :: "int \<Rightarrow> timedelta" where
  "timedelta_hours h = h * 3600000000"

definition datetime_now :: "int \<Rightarrow> datetime \<Rightarrow> datetime" where
  "datetime_now input_timezone_offset now_utc = now_utc + timedelta_hours input_timezone_offset"

text \<open>
  The exceptions that a run of the script can end with; the two IndexErrors are told
  apart by the lookup that raises them.
\<close>

datatype py_error =
    IndexError_active_row
  | IndexError_log_row
  | NameError_finish_actual
  | OverflowError

text \<open>
  Where the operands come from the user, the limits of the two Python types are part of
  the model. \<^verbatim>\<open>datetime.timedelta(minutes=m)\<close> raises OverflowError when the number of
  days of the result, rounded down, has a magnitude above 999999999. A datetime plus a
  timedelta raises OverflowError when the sum is before 0001-01-01 00:00:00 or after
  9999-12-31 23:59:59.999999.
\<close>

definition timedelta_minutes :: "int \<Rightarrow> py_error + timedelta" where
  "timedelta_minutes m =
     (if - 999999999 \<le> (m * 60000000) div 86400000000 \<and>
         (m * 60000000) div 86400000000 \<le> 999999999
      then Inr (m * 60000000)
      else Inl OverflowError)"

definition datetime_min :: datetime where
  "datetime_min = - 62135596800000000"

definition datetime_max :: datetime where
  "datetime_max = 253402300799999999"

definition datetime_plus :: "datetime \<Rightarrow> timedelta \<Rightarrow> py_error + datetime" where
  "datetime_plus t delta =
     (if datetime_min \<le> t + delta \<and> t + delta \<le> datetime_max
      then Inr (t + delta)
      else Inl OverflowError)"

text \<open>
  \<^verbatim>\<open>delta / np.timedelta64(1, "m")\<close> and \<^verbatim>\<open>delta.total_seconds()\<close> are divisions
  whose result is a fraction; they are taken in the rationals. \<^verbatim>\<open>int(x)\<close> on a
  fraction truncates toward zero.
\<close>

definition in_minutes :: "timedelta \<Rightarrow> rat" where
  "in_minutes delta = of_int delta / of_int 60000000"

definition total_seconds :: "timedelta \<Rightarrow> rat" where
  "total_seconds delta = of_int delta / of_int 1000000"

definition py_int :: "rat \<Rightarrow> int" where
  "py_int x = (if 0 \<le> x then \<lfloor>x\<rfloor> else \<lceil>x\<rceil>)"

section \<open>Rows and worksheets\<close>

text \<open>
  A row of worksheet "active" has the columns name, lab, start, finish\_estimation and
  duration\_estimation; a row of worksheet "log" has two more, finish\_actual and
  duration\_actual, whose cells are blank (\<open>None\<close>) until they are written.
\<close>

record session =
  name :: string
  lab :: string
  start :: datetime
  finish_estimation :: datetime
  duration_estimation :: int

record log_entry = session +
  finish_actual :: "datetime option"
  duration_actual :: "int option"

section \<open>Home tab: occupancy\<close>

datatype occupancy =
    Exceeding_maximum_capacity
  | At_full_capacity
  | Nobody_in_the_gym
  | Fun_to_workout

text \<open>Lines 121 to 128; \<open>df\<close> is the data frame of the active rows.\<close>

definition occupancy_message :: "session list \<Rightarrow> occupancy" where
  "occupancy_message df =
     (if length df > MAX_CAPACITY then Exceeding_maximum_capacity
      else if length df = MAX_CAPACITY then At_full_capacity
      else if length df = 0 then Nobody_in_the_gym
      else Fun_to_workout)"

section \<open>The record store\<close>

text \<open>
  The two worksheets are objects of the gspread library. A worksheet is modelled by the
  list of its data rows: sheet row 1 is the header, so sheet row \<open>r \<ge> 2\<close> is the data
  row with data frame index \<open>r - 2\<close>, and the sheet rows below the data are blank.
  The store also keeps the calls made on it, in the order in which they were made.
\<close>

datatype cell = Text_datetime datetime | Number int

datatype call =
    Append_row_active session
  | Append_row_log session
  | Update_cell_log nat nat cell
  | Delete_rows_active nat

record store =
  worksheet_active :: "session list"
  worksheet_log :: "log_entry list"
  calls :: "call list"

text \<open>
  \<^verbatim>\<open>append_row(input_row, table_range="A1:E1")\<close> writes the five values below the last
  data row. On worksheet "log" the cells of columns 6 and 7 of the new row stay blank.
\<close>

definition log_row :: "session \<Rightarrow> log_entry" where
  "log_row input_row =
     \<lparr>name = name input_row, lab = lab input_row, start = start input_row,
      finish_estimation = finish_estimation input_row,
      duration_estimation = duration_estimation input_row,
      finish_actual = None, duration_actual = None\<rparr>"

definition append_row_active :: "session \<Rightarrow> store \<Rightarrow> store" where
  "append_row_active input_row s =
     s\<lparr>worksheet_active := worksheet_active s @ [input_row],
       calls := calls s @ [Append_row_active input_row]\<rparr>"

definition append_row_log :: "session \<Rightarrow> store \<Rightarrow> store" where
  "append_row_log input_row s =
     s\<lparr>worksheet_log := worksheet_log s @ [log_row input_row],
       calls := calls s @ [Append_row_log input_row]\<rparr>"

text \<open>
  \<^verbatim>\<open>delete_rows(r)\<close> removes sheet row \<open>r\<close>; the rows below it move up by one. Below
  the data it removes a blank row, which leaves the data rows as they are.
\<close>

definition delete_at :: "nat \<Rightarrow> 'a list \<Rightarrow> 'a list" where
  "delete_at i xs = take i xs @ drop (Suc i) xs"

definition delete_rows_active :: "nat \<Rightarrow> store \<Rightarrow> store" where
  "delete_rows_active r s =
     s\<lparr>worksheet_active :=
         (if 2 \<le> r then delete_at (r - 2) (worksheet_active s) else worksheet_active s),
       calls := calls s @ [Delete_rows_active r]\<rparr>"

text \<open>
  \<^verbatim>\<open>update_cell(r, c, value)\<close> on worksheet "log". The program writes column 6 with
  the text of a datetime and column 7 with a number, in a data row; no other cell of a
  log entry is written by the program. A cell below the data rows belongs to no log
  entry, and a write there leaves the entries as they are.
\<close>

definition write_cell :: "nat \<Rightarrow> cell \<Rightarrow> log_entry \<Rightarrow> log_entry" where
  "write_cell c v e =
     (case v of
        Text_datetime t \<Rightarrow> (if c = 6 then e\<lparr>finish_actual := Some t\<rparr> else e)
      | Number n \<Rightarrow> (if c = 7 then e\<lparr>duration_actual := Some n\<rparr> else e))"

definition update_cell_log :: "nat \<Rightarrow> nat \<Rightarrow> cell \<Rightarrow> store \<Rightarrow> store" where
  "update_cell_log r c v s =
     s\<lparr>worksheet_log :=
         (if 2 \<le> r \<and> r - 2 < length (worksheet_log s)
          then (worksheet_log s)[r - 2 := write_cell c v (worksheet_log s ! (r - 2))]
          else worksheet_log s),
       calls := calls s @ [Update_cell_log r c v]\<rparr>"

section \<open>Selecting rows of a data frame\<close>

text \<open>
  \<^verbatim>\<open>df.index[mask]\<close>: the indices of the rows that the mask selects, ascending (the
  data frames are built from the list of records, so the index is 0, 1, 2, ...).
  \<^verbatim>\<open>df[col][mask].values\<close> is the list of the selected rows' values.
\<close>

definition index_where :: "('a \<Rightarrow> bool) \<Rightarrow> 'a list \<Rightarrow> nat list" where
  "index_where sel df = filter (\<lambda>i. sel (df ! i)) [0..<length df]"

section \<open>Eviction of old entries\<close>

text \<open>
  Lines 101 to 108. \<open>df\<close> is the data frame loaded from worksheet "active", and the
  deletions go to the worksheet:
  \<^verbatim>\<open>
  current_time = datetime_now(TIMEZONE_OFFSET)
  df = df.assign(delta=current_time - df["start"])
  old_entries = df.index[df["delta"] / np.timedelta64(1, "m") > MAX_SESSION_DUR].values
  if len(old_entries) > 0:
      for entry in old_entries:
          worksheet_active.delete_rows(int(entry) + 2)
  \<close>
\<close>

definition old_entries :: "datetime \<Rightarrow> session list \<Rightarrow> nat list" where
  "old_entries current_time df =
     index_where (\<lambda>row. in_minutes (current_time - start row) > of_int MAX_SESSION_DUR) df"

fun delete_entries :: "nat list \<Rightarrow> store \<Rightarrow> store" where
  "delete_entries [] s = s"
| "delete_entries (entry # entries) s = delete_entries entries (delete_rows_active (entry + 2) s)"

definition remove_old_entry :: "datetime \<Rightarrow> session list \<Rightarrow> store \<Rightarrow> store" where
  "remove_old_entry now_utc df s =
     (let current_time = datetime_now TIMEZONE_OFFSET now_utc;
          old = old_entries current_time df
      in if length old > 0 then delete_entries old s else s)"

section \<open>What a tab shows after a button\<close>

datatype feedback =
    Please_write_your_name
  | Please_write_your_lab
  | Pick_another_name
  | Logged_in
  | Logged_out
  | No_button
  | Uncaught py_error

section \<open>Login tab\<close>

text \<open>
  Line 189: \<^verbatim>\<open>dur_input = st.number_input("Duration", min_value=10, step=10, value=30, ...)\<close>.
  The widget belongs to Streamlit; it is an argument of the model, applied to the three
  values the program passes and to what the user did with it.
\<close>

definition dur_input :: "(int \<Rightarrow> int \<Rightarrow> int \<Rightarrow> 'u \<Rightarrow> int) \<Rightarrow> 'u \<Rightarrow> int" where
  "dur_input number_input user = number_input 10 10 30 user"

text \<open>
  The data frame is built from \<^verbatim>\<open>worksheet_active.get_all_records()\<close> (line 68), which
  turns every cell whose text reads as a number into that number (gspread's
  \<open>numericise\<close>); which texts those are is the argument \<open>numericised\<close> of the model.
  The name of a row of the data frame is the text of its cell.
  \<^verbatim>\<open>name_input in df["name"].values\<close> compares the typed text with the cells, and a
  number is never equal to a text: only the cells that stayed text can be equal to it.
\<close>

definition text_names :: "(string \<Rightarrow> bool) \<Rightarrow> session list \<Rightarrow> string list" where
  "text_names numericised df = filter (\<lambda>cell. \<not> numericised cell) (map name df)"

text \<open>
  Lines 207 to 233, the body of \<^verbatim>\<open>if st.button("Login")\<close>. The row is
  \<^verbatim>\<open>[name_input, lab_input, str(start_time), str(finish_time), int(dur_input)]\<close>. The
  flag \<^verbatim>\<open>st.session_state["login"]\<close> only decides whether a Refresh button is drawn
  and is left out.
\<close>

definition input_row :: "string \<Rightarrow> string \<Rightarrow> datetime \<Rightarrow> datetime \<Rightarrow> int \<Rightarrow> session" where
  "input_row name_input lab_input start_time finish_time dur_value =
     \<lparr>name = name_input, lab = lab_input, start = start_time,
      finish_estimation = finish_time, duration_estimation = dur_value\<rparr>"

definition login_button ::
  "(string \<Rightarrow> bool) \<Rightarrow> string \<Rightarrow> string \<Rightarrow> datetime \<Rightarrow> datetime \<Rightarrow> int \<Rightarrow> session list
     \<Rightarrow> store \<Rightarrow> feedback \<times> store" where
  "login_button numericised name_input lab_input start_time finish_time dur_value df s =
     (if length name_input = 0 then (Please_write_your_name, s)
      else if length lab_input = 0 then (Please_write_your_lab, s)
      else if name_input \<in> set (text_names numericised df) then (Pick_another_name, s)
      else (Logged_in,
            append_row_log (input_row name_input lab_input start_time finish_time dur_value)
              (append_row_active
                (input_row name_input lab_input start_time finish_time dur_value) s)))"

text \<open>
  Lines 195 and 196, which run on every pass through the tab, before the button:
  \<^verbatim>\<open>
  dur = datetime.timedelta(minutes=dur_input)
  finish_time = start_time + dur
  \<close>
\<close>

definition finish_time_of :: "datetime \<Rightarrow> int \<Rightarrow> py_error + datetime" where
  "finish_time_of start_time dur_value =
     (case timedelta_minutes dur_value of
        Inl e \<Rightarrow> Inl e
      | Inr dur \<Rightarrow> datetime_plus start_time dur)"

text \<open>
  The tab as a whole: line 194 reads the clock, lines 195 and 196 compute the finish
  time, then comes the button. \<open>clicked\<close> says whether the user pressed it, and
  \<open>dur_value\<close> is the value of the duration input.
\<close>

definition login_tab ::
  "(string \<Rightarrow> bool) \<Rightarrow> string \<Rightarrow> string \<Rightarrow> int \<Rightarrow> bool \<Rightarrow> datetime \<Rightarrow> session list
     \<Rightarrow> store \<Rightarrow> feedback \<times> store" where
  "login_tab numericised name_input lab_input dur_value clicked now_utc df s =
     (let start_time = datetime_now TIMEZONE_OFFSET now_utc
      in case finish_time_of start_time dur_value of
           Inl e \<Rightarrow> (Uncaught e, s)
         | Inr finish_time \<Rightarrow>
             (if clicked
              then login_button numericised name_input lab_input start_time finish_time
                     dur_value df s
              else (No_button, s)))"

section \<open>Logout tab\<close>

text \<open>
  \<open>name_logout\<close> is the value of the select box over \<^verbatim>\<open>df["name"].unique()\<close>: one of
  the names, or \<open>None\<close> when there is no option. Lines 250 to 259 compute
  \<open>finish_actual\<close> and \<open>duration_actual\<close> only when the data frame has a row;
  \<^verbatim>\<open>.values[0]\<close> raises IndexError when no row is selected. Names are compared as
  the texts of their cells.
  \<^verbatim>\<open>
  input_log_df = df.loc[df["name"] == name_logout]
  finish_actual = datetime_now(TIMEZONE_OFFSET)
  start_time = pd.Timestamp(input_log_df["start"].values[0]).to_pydatetime()
  duration_actual = int((finish_actual - start_time).total_seconds() / 60)
  \<close>
\<close>

definition duration_minutes :: "datetime \<Rightarrow> datetime \<Rightarrow> int" where
  "duration_minutes finish_time start_time =
     py_int (total_seconds (finish_time - start_time) / 60)"

definition logout_times ::
  "session list \<Rightarrow> string option \<Rightarrow> datetime \<Rightarrow> py_error + (datetime \<times> int) option" where
  "logout_times df name_logout now_utc =
     (if length df > 0 then
        (case filter (\<lambda>row. Some (name row) = name_logout) df of
           [] \<Rightarrow> Inl IndexError_active_row
         | row # _ \<Rightarrow>
             (let finish_time = datetime_now TIMEZONE_OFFSET now_utc
              in Inr (Some (finish_time, duration_minutes finish_time (start row)))))
      else Inr None)"

text \<open>
  Lines 271 to 288, the body of \<^verbatim>\<open>if st.button("Logout")\<close>. \<open>computed\<close> holds
  \<open>finish_actual\<close> and \<open>duration_actual\<close> when lines 255 to 259 have run.
  \<^verbatim>\<open>
  start_time = df["start"][df["name"] == name_logout].values[0]
  name_logout_log_idx = (log_df.index[((log_df["name"] == name_logout)
                         & (log_df["start"] == start_time))].tolist()[0] + 2)
  worksheet_log.update_cell(name_logout_log_idx, 6, str(finish_actual))
  worksheet_log.update_cell(name_logout_log_idx, 7, duration_actual)
  name_logout_idx = df.index[df["name"] == name_logout].tolist()[0] + 2
  worksheet_active.delete_rows(name_logout_idx)
  \<close>
\<close>

definition logout_button ::
  "session list \<Rightarrow> log_entry list \<Rightarrow> string option \<Rightarrow> (datetime \<times> int) option \<Rightarrow> store
     \<Rightarrow> feedback \<times> store" where
  "logout_button df log_df name_logout computed s =
     (case filter (\<lambda>row. Some (name row) = name_logout) df of
        [] \<Rightarrow> (Uncaught IndexError_active_row, s)
      | row # _ \<Rightarrow>
          (case index_where (\<lambda>e. Some (name e) = name_logout \<and> start e = start row) log_df of
             [] \<Rightarrow> (Uncaught IndexError_log_row, s)
           | i # _ \<Rightarrow>
               (case computed of
                  None \<Rightarrow> (Uncaught NameError_finish_actual, s)
                | Some (finish_time, duration) \<Rightarrow>
                    (case index_where (\<lambda>r. Some (name r) = name_logout) df of
                       [] \<Rightarrow>
                         (Uncaught IndexError_active_row,
                          update_cell_log (i + 2) 7 (Number duration)
                            (update_cell_log (i + 2) 6 (Text_datetime finish_time) s))
                     | k # _ \<Rightarrow>
                         (Logged_out,
                          delete_rows_active (k + 2)
                            (update_cell_log (i + 2) 7 (Number duration)
                              (update_cell_log (i + 2) 6 (Text_datetime finish_time) s)))))))"

text \<open>
  The tab as a whole: the select box, lines 250 to 259, and the button of line 271,
  which is drawn whether or not the data frame has a row. \<open>clicked\<close> says whether the
  user pressed it.
\<close>

definition logout_tab ::
  "session list \<Rightarrow> log_entry list \<Rightarrow> string option \<Rightarrow> bool \<Rightarrow> datetime \<Rightarrow> store
     \<Rightarrow> feedback \<times> store" where
  "logout_tab df log_df name_logout clicked now_utc s =
     (case logout_times df name_logout now_utc of
        Inl e \<Rightarrow> (Uncaught e, s)
      | Inr computed \<Rightarrow>
          (if clicked then logout_button df log_df name_logout computed s else (No_button, s)))"

section \<open>Facts about the selections and the time arithmetic\<close>

lemma index_where_Cons:
  "index_where sel (x # xs) =
     (if sel x then 0 # map Suc (index_where sel xs) else map Suc (index_where sel xs))"
proof -
  have "[0..<Suc (length xs)] = 0 # [Suc 0..<Suc (length xs)]"
    by (rule upt_conv_Cons) simp
  then have "[0..<length (x # xs)] = 0 # map Suc [0..<length xs]"
    by (simp only: map_Suc_upt list.size(4) One_nat_def add_Suc_right add_0_right)
  then show ?thesis
    by (simp add: index_where_def filter_map comp_def)
qed

lemma index_where_Nil [simp]: "index_where sel [] = []"
  by (simp add: index_where_def)

lemma set_index_where: "set (index_where sel df) = {i. i < length df \<and> sel (df ! i)}"
  by (auto simp: index_where_def)



lemma find_filter:
  "find sel df = (case filter sel df of [] \<Rightarrow> None | row # _ \<Rightarrow> Some row)"
  by (induction df) simp_all

lemma filter_of_find: "find sel df = Some row \<Longrightarrow> \<exists>rest. filter sel df = row # rest"
  by (simp add: find_filter split: list.splits)


lemma delete_at_beyond: "length xs \<le> i \<Longrightarrow> delete_at i xs = xs"
  by (simp add: delete_at_def)

lemma in_minutes_gt_iff: "in_minutes d > of_int MAX_SESSION_DUR \<longleftrightarrow> d > 10800000000"
proof -
  have "in_minutes d > of_int MAX_SESSION_DUR \<longleftrightarrow> (of_int d :: rat) > of_int 10800000000"
    by (simp add: in_minutes_def MAX_SESSION_DUR_def field_simps)
  then show ?thesis by (simp only: of_int_less_iff)
qed




lemma old_entries_iff:
  "i \<in> set (old_entries current_time df) \<longleftrightarrow>
     i < length df \<and> current_time - start (df ! i) > 10800000000"
  by (simp add: old_entries_def set_index_where in_minutes_gt_iff)

lemma remove_old_entry_none:
  "old_entries (datetime_now TIMEZONE_OFFSET now_utc) df = [] \<Longrightarrow>
     remove_old_entry now_utc df s = s"
  by (simp add: remove_old_entry_def Let_def)

lemma remove_old_entry_single:
  "old_entries (datetime_now TIMEZONE_OFFSET now_utc) df = [i] \<Longrightarrow>
     worksheet_active (remove_old_entry now_utc df s) = delete_at i (worksheet_active s)"
  by (simp add: remove_old_entry_def Let_def delete_rows_active_def)

lemma old_entries_threshold:
  "old_entries (t + 10860000000) [r\<lparr>start := t\<rparr>] = [0]"
  "old_entries (t + 10800000000) [r\<lparr>start := t\<rparr>] = []"
  "old_entries (t + 10740000000) [r\<lparr>start := t\<rparr>] = []"
  by (simp_all add: old_entries_def index_where_Cons in_minutes_gt_iff)


lemma timedelta_minutes_iff:
  "timedelta_minutes m = Inr dur \<longleftrightarrow>
     dur = m * 60000000 \<and> - 1439999998560 \<le> m \<and> m \<le> 1439999999999"
proof -
  define q r where "q = m div 1440" and "r = m mod 1440"
  have m: "m = 1440 * q + r" and r: "0 \<le> r" "r < 1440"
    by (simp_all add: q_def r_def)
  have "(m * 60000000) div (1440 * 60000000) = m div 1440"
    by (rule div_mult_mult2) simp
  then have d: "(m * 60000000) div 86400000000 = q"
    by (simp add: q_def)
  have lo: "- 999999999 \<le> q \<longleftrightarrow> - 1439999998560 \<le> m"
    using m r by linarith
  have hi: "q \<le> 999999999 \<longleftrightarrow> m \<le> 1439999999999"
    using m r by linarith
  show ?thesis
    unfolding timedelta_minutes_def d lo hi by auto
qed

lemma finish_time_of_iff:
  "finish_time_of start_time dur_value = Inr finish_time \<longleftrightarrow>
     finish_time = start_time + dur_value * 60000000 \<and>
     - 1439999998560 \<le> dur_value \<and> dur_value \<le> 1439999999999 \<and>
     datetime_min \<le> finish_time \<and> finish_time \<le> datetime_max"
proof (cases "timedelta_minutes dur_value")
  case (Inl e)
  then have "\<not> (- 1439999998560 \<le> dur_value \<and> dur_value \<le> 1439999999999)"
    using timedelta_minutes_iff [of dur_value "dur_value * 60000000"] by simp
  with Inl show ?thesis by (auto simp: finish_time_of_def)
next
  case (Inr dur)
  then have "dur = dur_value * 60000000"
    and "- 1439999998560 \<le> dur_value" and "dur_value \<le> 1439999999999"
    using timedelta_minutes_iff [of dur_value dur] by simp_all
  with Inr show ?thesis
    by (auto simp: finish_time_of_def datetime_plus_def)
qed

lemma finish_time_of_error:
  "finish_time_of start_time dur_value = Inl e \<Longrightarrow> e = OverflowError"
  by (auto simp: finish_time_of_def timedelta_minutes_def datetime_plus_def
      split: sum.splits if_splits)

lemma login_tab_raises:
  "finish_time_of (datetime_now TIMEZONE_OFFSET now_utc) dur_value = Inl e \<Longrightarrow>
     login_tab numericised name_input lab_input dur_value clicked now_utc df s =
       (Uncaught OverflowError, s)"
  using finish_time_of_error [of "datetime_now TIMEZONE_OFFSET now_utc" dur_value e]
  by (simp add: login_tab_def)

lemma login_tab_store_unchanged:
  "login_tab numericised name_input lab_input dur_value clicked now_utc df s = (shown, s') \<Longrightarrow>
     shown \<noteq> Logged_in \<Longrightarrow> s' = s"
  by (auto simp: login_tab_def login_button_def Let_def split: sum.splits if_splits)



lemma logout_button_without_times:
  assumes "find (\<lambda>row. name row = n) df = Some row"
    and "index_where (\<lambda>e. name e = n \<and> start e = start row) log_df = i # rest"
  shows "logout_button df log_df (Some n) None s = (Uncaught NameError_finish_actual, s)"
proof -
  from assms(1) obtain rs where "filter (\<lambda>row. name row = n) df = row # rs"
    using filter_of_find by fastforce
  then show ?thesis
    by (simp add: logout_button_def assms(2))
qed

lemma logout_button_no_active_row:
  "\<forall>row \<in> set df. Some (name row) \<noteq> name_logout \<Longrightarrow>
     logout_button df log_df name_logout computed s = (Uncaught IndexError_active_row, s)"
proof -
  assume "\<forall>row \<in> set df. Some (name row) \<noteq> name_logout"
  then have "filter (\<lambda>row. Some (name row) = name_logout) df = []"
    by (simp add: filter_empty_conv)
  then show ?thesis
    by (simp add: logout_button_def)
qed

section \<open>Capacity classification\<close>

text \<open>
  C9. The message on the home tab depends on the number of active rows and on
  \<open>MAX_CAPACITY = 2\<close> only (the function has no other argument and returns no store):
  no row gives the "nobody" (empty) message, between 1 and \<open>MAX_CAPACITY - 1\<close> rows
  the "fun to workout" (under capacity) message, exactly \<open>MAX_CAPACITY\<close> rows the
  "full capacity" message, and more rows the "exceeding" (over capacity) message.
\<close>

theorem occupancy_message_classification:
  "MAX_CAPACITY = 2 \<and>
   (length df = 0 \<longrightarrow> occupancy_message df = Nobody_in_the_gym) \<and>
   (1 \<le> length df \<and> length df \<le> MAX_CAPACITY - 1 \<longrightarrow> occupancy_message df = Fun_to_workout) \<and>
   (length df = MAX_CAPACITY \<longrightarrow> occupancy_message df = At_full_capacity) \<and>
   (length df > MAX_CAPACITY \<longrightarrow> occupancy_message df = Exceeding_maximum_capacity)"
  by (simp add: occupancy_message_def MAX_CAPACITY_def)

theorem occupancy_message_classification_witness:
  "occupancy_message [] = Nobody_in_the_gym \<and>
   occupancy_message
     [\<lparr>name = ''Alice'', lab = ''LabA'', start = 36000000000,
         finish_estimation = 37800000000, duration_estimation = 30\<rparr>] = Fun_to_workout \<and>
   occupancy_message
     [\<lparr>name = ''Alice'', lab = ''LabA'', start = 36000000000,
         finish_estimation = 37800000000, duration_estimation = 30\<rparr>,
      \<lparr>name = ''Bob'', lab = ''LabB'', start = 36000000000,
         finish_estimation = 37800000000, duration_estimation = 30\<rparr>] = At_full_capacity \<and>
   occupancy_message
     [\<lparr>name = ''Alice'', lab = ''LabA'', start = 36000000000,
         finish_estimation = 37800000000, duration_estimation = 30\<rparr>,
      \<lparr>name = ''Bob'', lab = ''LabB'', start = 36000000000,
         finish_estimation = 37800000000, duration_estimation = 30\<rparr>,
      \<lparr>name = ''Carol'', lab = ''LabC'', start = 36000000000,
         finish_estimation = 37800000000, duration_estimation = 30\<rparr>] = Exceeding_maximum_capacity"
proof -
  have a: "occupancy_message [] = Nobody_in_the_gym"
    using occupancy_message_classification [of "[]"]
    unfolding MAX_CAPACITY_def by simp
  have b: "occupancy_message
     [\<lparr>name = ''Alice'', lab = ''LabA'', start = 36000000000,
         finish_estimation = 37800000000, duration_estimation = 30\<rparr>] = Fun_to_workout"
    using occupancy_message_classification
      [of "[\<lparr>name = ''Alice'', lab = ''LabA'', start = 36000000000,
         finish_estimation = 37800000000, duration_estimation = 30\<rparr>]"]
    unfolding MAX_CAPACITY_def by simp
  have c: "occupancy_message
     [\<lparr>name = ''Alice'', lab = ''LabA'', start = 36000000000,
         finish_estimation = 37800000000, duration_estimation = 30\<rparr>,
      \<lparr>name = ''Bob'', lab = ''LabB'', start = 36000000000,
         finish_estimation = 37800000000, duration_estimation = 30\<rparr>] = At_full_capacity"
    using occupancy_message_classification
      [of "[\<lparr>name = ''Alice'', lab = ''LabA'', start = 36000000000,
         finish_estimation = 37800000000, duration_estimation = 30\<rparr>,
      \<lparr>name = ''Bob'', lab = ''LabB'', start = 36000000000,
         finish_estimation = 37800000000, duration_estimation = 30\<rparr>]"]
    unfolding MAX_CAPACITY_def by simp
  have d: "occupancy_message
     [\<lparr>name = ''Alice'', lab = ''LabA'', start = 36000000000,
         finish_estimation = 37800000000, duration_estimation = 30\<rparr>,
      \<lparr>name = ''Bob'', lab = ''LabB'', start = 36000000000,
         finish_estimation = 37800000000, duration_estimation = 30\<rparr>,
      \<lparr>name = ''Carol'', lab = ''LabC'', start = 36000000000,
         finish_estimation = 37800000000, duration_estimation = 30\<rparr>] = Exceeding_maximum_capacity"
    using occupancy_message_classification
      [of "[\<lparr>name = ''Alice'', lab = ''LabA'', start = 36000000000,
         finish_estimation = 37800000000, duration_estimation = 30\<rparr>,
      \<lparr>name = ''Bob'', lab = ''LabB'', start = 36000000000,
         finish_estimation = 37800000000, duration_estimation = 30\<rparr>,
      \<lparr>name = ''Carol'', lab = ''LabC'', start = 36000000000,
         finish_estimation = 37800000000, duration_estimation = 30\<rparr>]"]
    unfolding MAX_CAPACITY_def by simp
  from a b c d show ?thesis by (intro conjI)
qed

section \<open>Login\<close>

text \<open>
  C5, as amended. A press of the Login button, in a run whose lines 195 and 196 give a
  finish time, with an empty name, an empty lab, or a name that is equal to a text cell
  of the name column of the loaded (possibly cached) active data frame, is rejected: the
  tab shows the error of the first of the three checks that applies (a different message
  for each), no worksheet call is made, and the store (both worksheets) is returned as it
  was.
\<close>

theorem login_rejects_invalid_input:
  assumes "name_input = [] \<or> lab_input = [] \<or>
           (name_input \<in> name ` set df \<and> \<not> numericised name_input)"
    and "finish_time_of (datetime_now TIMEZONE_OFFSET now_utc) dur_value = Inr finish_time"
  shows "login_tab numericised name_input lab_input dur_value True now_utc df s =
           ((if name_input = [] then Please_write_your_name
             else if lab_input = [] then Please_write_your_lab
             else Pick_another_name), s)"
  using assms by (auto simp: login_tab_def login_button_def text_names_def Let_def)

theorem login_rejects_invalid_input_witness:
  "login_tab (\<lambda>cell. False) [] ''LabA'' 30 True 3600000000 [] \<lparr>worksheet_active = [], worksheet_log = [], calls = []\<rparr> =
     (Please_write_your_name, \<lparr>worksheet_active = [], worksheet_log = [], calls = []\<rparr>) \<and>
   login_tab (\<lambda>cell. False) ''Alice'' [] 30 True 3600000000 [] \<lparr>worksheet_active = [], worksheet_log = [], calls = []\<rparr> =
     (Please_write_your_lab, \<lparr>worksheet_active = [], worksheet_log = [], calls = []\<rparr>) \<and>
   login_tab (\<lambda>cell. False) ''Alice'' ''LabB'' 30 True 3600000000
     [\<lparr>name = ''Alice'', lab = ''LabA'', start = 36000000000,
         finish_estimation = 37800000000, duration_estimation = 30\<rparr>]
     \<lparr>worksheet_active =
       [\<lparr>name = ''Alice'', lab = ''LabA'', start = 36000000000,
         finish_estimation = 37800000000, duration_estimation = 30\<rparr>],
     worksheet_log =
       [],
     calls = []\<rparr> =
     (Pick_another_name,
      \<lparr>worksheet_active =
       [\<lparr>name = ''Alice'', lab = ''LabA'', start = 36000000000,
         finish_estimation = 37800000000, duration_estimation = 30\<rparr>],
     worksheet_log =
       [],
     calls = []\<rparr>)"
proof -
  have ft: "finish_time_of (datetime_now TIMEZONE_OFFSET 3600000000) 30 = Inr 37800000000"
    by (simp add: finish_time_of_iff datetime_now_def TIMEZONE_OFFSET_def timedelta_hours_def
        datetime_min_def datetime_max_def)
  have a: "login_tab (\<lambda>cell. False) [] ''LabA'' 30 True 3600000000 [] \<lparr>worksheet_active = [], worksheet_log = [], calls = []\<rparr> =
     (Please_write_your_name, \<lparr>worksheet_active = [], worksheet_log = [], calls = []\<rparr>)"
    using login_rejects_invalid_input
      [where name_input = "[]" and lab_input = "''LabA''" and df = "[]"
         and numericised = "(\<lambda>cell. False)"
         and s = "\<lparr>worksheet_active = [], worksheet_log = [], calls = []\<rparr>", OF _ ft]
    by simp
  have b: "login_tab (\<lambda>cell. False) ''Alice'' [] 30 True 3600000000 [] \<lparr>worksheet_active = [], worksheet_log = [], calls = []\<rparr> =
     (Please_write_your_lab, \<lparr>worksheet_active = [], worksheet_log = [], calls = []\<rparr>)"
    using login_rejects_invalid_input
      [where name_input = "''Alice''" and lab_input = "[]" and df = "[]"
         and numericised = "(\<lambda>cell. False)"
         and s = "\<lparr>worksheet_active = [], worksheet_log = [], calls = []\<rparr>", OF _ ft]
    by simp
  have c: "login_tab (\<lambda>cell. False) ''Alice'' ''LabB'' 30 True 3600000000
     [\<lparr>name = ''Alice'', lab = ''LabA'', start = 36000000000,
         finish_estimation = 37800000000, duration_estimation = 30\<rparr>]
     \<lparr>worksheet_active =
       [\<lparr>name = ''Alice'', lab = ''LabA'', start = 36000000000,
         finish_estimation = 37800000000, duration_estimation = 30\<rparr>],
     worksheet_log =
       [],
     calls = []\<rparr> =
     (Pick_another_name,
      \<lparr>worksheet_active =
       [\<lparr>name = ''Alice'', lab = ''LabA'', start = 36000000000,
         finish_estimation = 37800000000, duration_estimation = 30\<rparr>],
     worksheet_log =
       [],
     calls = []\<rparr>)"
    using login_rejects_invalid_input
      [where name_input = "''Alice''" and lab_input = "''LabB''"
         and numericised = "(\<lambda>cell. False)"
         and df = "[\<lparr>name = ''Alice'', lab = ''LabA'', start = 36000000000,
         finish_estimation = 37800000000, duration_estimation = 30\<rparr>]"
         and s = "\<lparr>worksheet_active =
       [\<lparr>name = ''Alice'', lab = ''LabA'', start = 36000000000,
         finish_estimation = 37800000000, duration_estimation = 30\<rparr>],
     worksheet_log =
       [],
     calls = []\<rparr>", OF _ ft]
    by simp
  from a b c show ?thesis by (intro conjI)
qed

text \<open>
  C5 as stated fails in three ways. The test of line 216 reads the loaded data frame, not
  the worksheet: with Alice in worksheet "active" and a data frame loaded before her
  login, a second login as Alice is accepted and a second row is appended. A name cell
  that was turned into a number is never equal to the typed text: with the row of
  \<open>123\<close> in the data frame, a login as \<open>123\<close> is accepted. And a duration of
  5000000000 minutes ends the run with the OverflowError of line 196 before the name is
  tested, so an empty name gets no validation error.
\<close>

theorem login_duplicate_counterexample:
  "login_tab (\<lambda>cell. False) ''Alice'' ''LabA'' 30 True 3600000000 []
     \<lparr>worksheet_active =
       [\<lparr>name = ''Alice'', lab = ''LabA'', start = 32400000000,
         finish_estimation = 34200000000, duration_estimation = 30\<rparr>],
     worksheet_log =
       [\<lparr>name = ''Alice'', lab = ''LabA'', start = 32400000000,
         finish_estimation = 34200000000, duration_estimation = 30,
         finish_actual = None, duration_actual = None\<rparr>],
     calls = []\<rparr> =
   (Logged_in,
     \<lparr>worksheet_active =
       [\<lparr>name = ''Alice'', lab = ''LabA'', start = 32400000000,
         finish_estimation = 34200000000, duration_estimation = 30\<rparr>,
        \<lparr>name = ''Alice'', lab = ''LabA'', start = 36000000000,
         finish_estimation = 37800000000, duration_estimation = 30\<rparr>],
     worksheet_log =
       [\<lparr>name = ''Alice'', lab = ''LabA'', start = 32400000000,
         finish_estimation = 34200000000, duration_estimation = 30,
         finish_actual = None, duration_actual = None\<rparr>,
        \<lparr>name = ''Alice'', lab = ''LabA'', start = 36000000000,
         finish_estimation = 37800000000, duration_estimation = 30,
         finish_actual = None, duration_actual = None\<rparr>],
     calls = [Append_row_active
          \<lparr>name = ''Alice'', lab = ''LabA'', start = 36000000000,
            finish_estimation = 37800000000, duration_estimation = 30\<rparr>,
        Append_row_log
          \<lparr>name = ''Alice'', lab = ''LabA'', start = 36000000000,
            finish_estimation = 37800000000, duration_estimation = 30\<rparr>]\<rparr>) \<and>
   login_tab (\<lambda>cell. cell = ''123'') ''123'' ''LabB'' 30 True 3600000000
     [\<lparr>name = ''123'', lab = ''LabA'', start = 32400000000,
         finish_estimation = 34200000000, duration_estimation = 30\<rparr>]
     \<lparr>worksheet_active =
       [\<lparr>name = ''123'', lab = ''LabA'', start = 32400000000,
         finish_estimation = 34200000000, duration_estimation = 30\<rparr>],
     worksheet_log =
       [\<lparr>name = ''123'', lab = ''LabA'', start = 32400000000,
         finish_estimation = 34200000000, duration_estimation = 30,
         finish_actual = None, duration_actual = None\<rparr>],
     calls = []\<rparr> =
   (Logged_in,
     \<lparr>worksheet_active =
       [\<lparr>name = ''123'', lab = ''LabA'', start = 32400000000,
         finish_estimation = 34200000000, duration_estimation = 30\<rparr>,
        \<lparr>name = ''123'', lab = ''LabB'', start = 36000000000,
         finish_estimation = 37800000000, duration_estimation = 30\<rparr>],
     worksheet_log =
       [\<lparr>name = ''123'', lab = ''LabA'', start = 32400000000,
         finish_estimation = 34200000000, duration_estimation = 30,
         finish_actual = None, duration_actual = None\<rparr>,
        \<lparr>name = ''123'', lab = ''LabB'', start = 36000000000,
         finish_estimation = 37800000000, duration_estimation = 30,
         finish_actual = None, duration_actual = None\<rparr>],
     calls = [Append_row_active
          \<lparr>name = ''123'', lab = ''LabB'', start = 36000000000,
            finish_estimation = 37800000000, duration_estimation = 30\<rparr>,
        Append_row_log
          \<lparr>name = ''123'', lab = ''LabB'', start = 36000000000,
            finish_estimation = 37800000000, duration_estimation = 30\<rparr>]\<rparr>) \<and>
   login_tab (\<lambda>cell. False) [] ''LabA'' 5000000000 True 3600000000 [] \<lparr>worksheet_active = [], worksheet_log = [], calls = []\<rparr> =
     (Uncaught OverflowError, \<lparr>worksheet_active = [], worksheet_log = [], calls = []\<rparr>)"
  by code_simp

text \<open>
  C6, as amended. A press of the Login button with a non-empty name, a non-empty lab and
  a name that is in no row of the loaded (possibly cached) active data frame, in a run
  whose lines 195 and 196 give a finish time (no OverflowError), succeeds. The start of
  the session is the adjusted clock (UTC plus nine hours) and its estimated finish is the
  start plus the duration in minutes. Exactly one row is appended to worksheet "active"
  and exactly one row to worksheet "log"; the two rows have the same five values (so the
  same name and start), and the log row's finish\_actual and duration\_actual are blank.
\<close>

theorem login_appends_matching_rows:
  assumes "name_input \<noteq> []" and "lab_input \<noteq> []" and "name_input \<notin> name ` set df"
    and "finish_time_of (datetime_now TIMEZONE_OFFSET now_utc) dur_value = Inr finish_time"
  shows "datetime_now TIMEZONE_OFFSET now_utc = now_utc + 9 * 3600000000 \<and>
         finish_time = datetime_now TIMEZONE_OFFSET now_utc + dur_value * 60000000 \<and>
         login_tab numericised name_input lab_input dur_value True now_utc df s =
           (Logged_in,
            s\<lparr>worksheet_active := worksheet_active s @
               [\<lparr>name = name_input, lab = lab_input,
                start = datetime_now TIMEZONE_OFFSET now_utc,
                finish_estimation = datetime_now TIMEZONE_OFFSET now_utc + dur_value * 60000000,
                duration_estimation = dur_value\<rparr>],
              worksheet_log := worksheet_log s @
               [\<lparr>name = name_input, lab = lab_input,
                start = datetime_now TIMEZONE_OFFSET now_utc,
                finish_estimation = datetime_now TIMEZONE_OFFSET now_utc + dur_value * 60000000,
                duration_estimation = dur_value,
                finish_actual = None, duration_actual = None\<rparr>],
              calls := calls s @
               [Append_row_active
                 \<lparr>name = name_input, lab = lab_input,
                start = datetime_now TIMEZONE_OFFSET now_utc,
                finish_estimation = datetime_now TIMEZONE_OFFSET now_utc + dur_value * 60000000,
                duration_estimation = dur_value\<rparr>,
                Append_row_log
                 \<lparr>name = name_input, lab = lab_input,
                start = datetime_now TIMEZONE_OFFSET now_utc,
                finish_estimation = datetime_now TIMEZONE_OFFSET now_utc + dur_value * 60000000,
                duration_estimation = dur_value\<rparr>]\<rparr>)"
proof -
  have "datetime_now TIMEZONE_OFFSET now_utc = now_utc + 9 * 3600000000"
    by (simp add: datetime_now_def TIMEZONE_OFFSET_def timedelta_hours_def)
  moreover have f: "finish_time = datetime_now TIMEZONE_OFFSET now_utc + dur_value * 60000000"
    using assms(4) by (simp add: finish_time_of_iff)
  moreover have "name_input \<notin> set (text_names numericised df)"
    using assms(3) by (auto simp: text_names_def)
  then have "login_tab numericised name_input lab_input dur_value True now_utc df s =
           (Logged_in,
            s\<lparr>worksheet_active := worksheet_active s @
               [\<lparr>name = name_input, lab = lab_input,
                start = datetime_now TIMEZONE_OFFSET now_utc,
                finish_estimation = datetime_now TIMEZONE_OFFSET now_utc + dur_value * 60000000,
                duration_estimation = dur_value\<rparr>],
              worksheet_log := worksheet_log s @
               [\<lparr>name = name_input, lab = lab_input,
                start = datetime_now TIMEZONE_OFFSET now_utc,
                finish_estimation = datetime_now TIMEZONE_OFFSET now_utc + dur_value * 60000000,
                duration_estimation = dur_value,
                finish_actual = None, duration_actual = None\<rparr>],
              calls := calls s @
               [Append_row_active
                 \<lparr>name = name_input, lab = lab_input,
                start = datetime_now TIMEZONE_OFFSET now_utc,
                finish_estimation = datetime_now TIMEZONE_OFFSET now_utc + dur_value * 60000000,
                duration_estimation = dur_value\<rparr>,
                Append_row_log
                 \<lparr>name = name_input, lab = lab_input,
                start = datetime_now TIMEZONE_OFFSET now_utc,
                finish_estimation = datetime_now TIMEZONE_OFFSET now_utc + dur_value * 60000000,
                duration_estimation = dur_value\<rparr>]\<rparr>)"
    using assms(1,2,4) f
    by (simp add: login_tab_def login_button_def Let_def append_row_log_def
        append_row_active_def input_row_def log_row_def)
  ultimately show ?thesis by (intro conjI)
qed

theorem login_appends_matching_rows_witness:
  "login_tab (\<lambda>cell. False) ''Alice'' ''LabA'' 30 True 3600000000 [] \<lparr>worksheet_active = [], worksheet_log = [], calls = []\<rparr> =
   (Logged_in,
    \<lparr>worksheet_active =
       [\<lparr>name = ''Alice'', lab = ''LabA'', start = 36000000000,
         finish_estimation = 37800000000, duration_estimation = 30\<rparr>],
     worksheet_log =
       [\<lparr>name = ''Alice'', lab = ''LabA'', start = 36000000000,
         finish_estimation = 37800000000, duration_estimation = 30,
         finish_actual = None, duration_actual = None\<rparr>],
     calls = [Append_row_active
          \<lparr>name = ''Alice'', lab = ''LabA'', start = 36000000000,
            finish_estimation = 37800000000, duration_estimation = 30\<rparr>,
        Append_row_log
          \<lparr>name = ''Alice'', lab = ''LabA'', start = 36000000000,
            finish_estimation = 37800000000, duration_estimation = 30\<rparr>]\<rparr>)"
proof -
  have ft: "finish_time_of (datetime_now TIMEZONE_OFFSET 3600000000) 30 = Inr 37800000000"
    by (simp add: finish_time_of_iff datetime_now_def TIMEZONE_OFFSET_def timedelta_hours_def
        datetime_min_def datetime_max_def)
  show ?thesis
    using login_appends_matching_rows
      [where name_input = "''Alice''" and lab_input = "''LabA''" and df = "[]"
         and numericised = "(\<lambda>cell. False)"
         and s = "\<lparr>worksheet_active = [], worksheet_log = [], calls = []\<rparr>", OF _ _ _ ft]
    by simp
qed

text \<open>
  C6 as stated fails in two ways. With a duration of 5000000000 minutes the sum of line
  196 is after the year 9999: the run ends with an OverflowError and nothing is
  appended. And the name is looked up in the loaded data frame, not in the worksheet:
  with Alice gone from worksheet "active" but still in the data frame, her login is
  rejected.
\<close>

theorem login_valid_counterexample:
  "login_tab (\<lambda>cell. False) ''Alice'' ''LabA'' 5000000000 True 3600000000 [] \<lparr>worksheet_active = [], worksheet_log = [], calls = []\<rparr> =
     (Uncaught OverflowError, \<lparr>worksheet_active = [], worksheet_log = [], calls = []\<rparr>) \<and>
   login_tab (\<lambda>cell. False) ''Alice'' ''LabA'' 30 True 3600000000
     [\<lparr>name = ''Alice'', lab = ''LabA'', start = 32400000000,
         finish_estimation = 34200000000, duration_estimation = 30\<rparr>]
     \<lparr>worksheet_active = [], worksheet_log = [], calls = []\<rparr> =
     (Pick_another_name, \<lparr>worksheet_active = [], worksheet_log = [], calls = []\<rparr>)"
  by code_simp

text \<open>
  C10, as amended. The duration of a login is the value that the duration input
  returned; the program creates the input with \<open>min_value = 10\<close>, step 10 and default
  30, and does not test the value itself. Every row that the login tab adds to worksheet
  "active" or to worksheet "log" has that value as its duration\_estimation, a successful
  login adds one row to each, and so the duration\_estimation of a created row is at
  least 10 whenever the value returned by the input is.
\<close>

theorem login_duration_is_input_value:
  assumes "login_tab numericised name_input lab_input (dur_input number_input user) clicked
             now_utc df s = (shown, s')"
  shows "\<exists>rows entries.
           worksheet_active s' = worksheet_active s @ rows \<and>
           worksheet_log s' = worksheet_log s @ entries \<and>
           (shown = Logged_in \<longrightarrow> length rows = 1 \<and> length entries = 1) \<and>
           (\<forall>row \<in> set rows. duration_estimation row = number_input 10 10 30 user) \<and>
           (\<forall>e \<in> set entries. duration_estimation e = number_input 10 10 30 user) \<and>
           (10 \<le> number_input 10 10 30 user \<longrightarrow>
              (\<forall>row \<in> set rows. 10 \<le> duration_estimation row) \<and>
              (\<forall>e \<in> set entries. 10 \<le> duration_estimation e))"
proof (cases "shown = Logged_in")
  case True
  let ?dur = "dur_input number_input user"
  let ?start = "datetime_now TIMEZONE_OFFSET now_utc"
  from True assms obtain finish_time where
    s': "s' = append_row_log (input_row name_input lab_input ?start finish_time ?dur)
               (append_row_active (input_row name_input lab_input ?start finish_time ?dur) s)"
    by (auto simp: login_tab_def login_button_def Let_def split: sum.splits if_splits)
  let ?row = "input_row name_input lab_input ?start finish_time ?dur"
  have "worksheet_active s' = worksheet_active s @ [?row]"
    and "worksheet_log s' = worksheet_log s @ [log_row ?row]"
    unfolding s' by (simp_all add: append_row_log_def append_row_active_def)
  moreover have "duration_estimation ?row = number_input 10 10 30 user"
    and "duration_estimation (log_row ?row) = number_input 10 10 30 user"
    by (simp_all add: input_row_def log_row_def dur_input_def)
  ultimately show ?thesis
    by (intro exI [of _ "[?row]"] exI [of _ "[log_row ?row]"]) simp
next
  case False
  with assms have "s' = s"
    by (rule login_tab_store_unchanged)
  with False show ?thesis by simp
qed

theorem login_duration_is_input_value_witness:
  "worksheet_active
     (snd (login_tab (\<lambda>cell. False) ''Alice'' ''LabA''
          (dur_input
            (\<lambda>min_value step val user.
              case user of None \<Rightarrow> val | Some (x::int) \<Rightarrow> if x < min_value then val else x)
            (Some 5))
          True 3600000000 [] \<lparr>worksheet_active = [], worksheet_log = [], calls = []\<rparr>)) \<noteq> [] \<and>
   list_all (\<lambda>row. duration_estimation row = 30)
     (worksheet_active
       (snd (login_tab (\<lambda>cell. False) ''Alice'' ''LabA''
          (dur_input
            (\<lambda>min_value step val user.
              case user of None \<Rightarrow> val | Some (x::int) \<Rightarrow> if x < min_value then val else x)
            (Some 5))
          True 3600000000 [] \<lparr>worksheet_active = [], worksheet_log = [], calls = []\<rparr>))) \<and>
   list_all (\<lambda>e. 10 \<le> duration_estimation e)
     (worksheet_log
       (snd (login_tab (\<lambda>cell. False) ''Alice'' ''LabA''
          (dur_input
            (\<lambda>min_value step val user.
              case user of None \<Rightarrow> val | Some (x::int) \<Rightarrow> if x < min_value then val else x)
            (Some 5))
          True 3600000000 [] \<lparr>worksheet_active = [], worksheet_log = [], calls = []\<rparr>)))"
proof -
  define W :: "int \<Rightarrow> int \<Rightarrow> int \<Rightarrow> int option \<Rightarrow> int" where
    "W = (\<lambda>min_value step val user.
              case user of None \<Rightarrow> val | Some (x::int) \<Rightarrow> if x < min_value then val else x)"
  define s0 where "s0 = \<lparr>worksheet_active = [], worksheet_log = [], calls = []\<rparr>"
  obtain shown s' where r:
    "login_tab (\<lambda>cell. False) ''Alice'' ''LabA'' (dur_input W (Some 5)) True 3600000000 [] s0 =
       (shown, s')"
    by (cases "login_tab (\<lambda>cell. False) ''Alice'' ''LabA'' (dur_input W (Some 5)) True
                 3600000000 [] s0")
  have v: "W 10 10 30 (Some 5) = 30"
    by (simp add: W_def)
  from login_duration_is_input_value [OF r]
  obtain rows entries where
    "worksheet_active s' = worksheet_active s0 @ rows"
    "worksheet_log s' = worksheet_log s0 @ entries"
    "shown = Logged_in \<longrightarrow> length rows = 1 \<and> length entries = 1"
    "\<forall>row \<in> set rows. duration_estimation row = 30"
    "\<forall>e \<in> set entries. 10 \<le> duration_estimation e"
    unfolding v by auto
  moreover have "shown = Logged_in"
    using r
    by (simp add: login_tab_def login_button_def Let_def text_names_def s0_def v
        dur_input_def finish_time_of_iff [THEN iffD2] finish_time_of_def
        timedelta_minutes_def datetime_plus_def datetime_now_def TIMEZONE_OFFSET_def
        timedelta_hours_def datetime_min_def datetime_max_def)
  ultimately have "worksheet_active s' \<noteq> []"
    and "list_all (\<lambda>row. duration_estimation row = 30) (worksheet_active s')"
    and "list_all (\<lambda>e. 10 \<le> duration_estimation e) (worksheet_log s')"
    by (auto simp: s0_def list_all_iff)
  moreover have
    "s' = snd (login_tab (\<lambda>cell. False) ''Alice'' ''LabA'' (dur_input W (Some 5)) True
                3600000000 [] s0)"
    using r by simp
  ultimately show ?thesis
    unfolding W_def s0_def by simp
qed

text \<open>
  C10 as stated fails for an input that returns what the user entered without holding
  it to the minimum: with the value 5 the login succeeds and both new rows have a
  duration\_estimation of 5.
\<close>

theorem login_duration_counterexample:
  "login_tab (\<lambda>cell. False) ''Alice'' ''LabA''
     (dur_input (\<lambda>min_value step val user. user) 5) True 3600000000 [] \<lparr>worksheet_active = [], worksheet_log = [], calls = []\<rparr> =
   (Logged_in,
     \<lparr>worksheet_active =
       [\<lparr>name = ''Alice'', lab = ''LabA'', start = 36000000000,
         finish_estimation = 36300000000, duration_estimation = 5\<rparr>],
     worksheet_log =
       [\<lparr>name = ''Alice'', lab = ''LabA'', start = 36000000000,
         finish_estimation = 36300000000, duration_estimation = 5,
         finish_actual = None, duration_actual = None\<rparr>],
     calls = [Append_row_active
          \<lparr>name = ''Alice'', lab = ''LabA'', start = 36000000000,
            finish_estimation = 36300000000, duration_estimation = 5\<rparr>,
        Append_row_log
          \<lparr>name = ''Alice'', lab = ''LabA'', start = 36000000000,
            finish_estimation = 36300000000, duration_estimation = 5\<rparr>]\<rparr>) \<and>
   \<not> (10 \<le> (5 :: int))"
  by code_simp

section \<open>Logout\<close>









text \<open>
  C8. With an empty active data frame the Logout button is still drawn (line 271 is not
  under the test of line 250). A press runs the handler, and the run fails with the
  IndexError of \<^verbatim>\<open>.values[0]\<close> in line 274; the store is not changed.
\<close>

theorem logout_tab_empty_active_raises:
  "logout_tab [] log_df name_logout True now_utc s = (Uncaught IndexError_active_row, s)"
  by (simp add: logout_tab_def logout_times_def logout_button_def)

section \<open>Eviction\<close>

text \<open>
  C1. The sweep deletes the old entries by their data frame index, in ascending order,
  and each deletion moves the rows below it up by one. At 09:00 (adjusted), with the
  active rows of Alice (aged 200 minutes), Bob (190 minutes) and Carol (10 minutes), the
  old entries are 0 and 1: the first call deletes Alice, the second call deletes sheet
  row 3, which by then is Carol. Bob, who is old, stays and Carol, who is not, is removed.
  Deleting the same two entries in the other order, 1 and then 0, leaves Carol: the order
  matters.
\<close>

theorem eviction_two_stale_removes_fresh_row:
  "old_entries (datetime_now TIMEZONE_OFFSET 0)
      [\<lparr>name = ''Alice'', lab = ''LabA'', start = 20400000000,
         finish_estimation = 22200000000, duration_estimation = 30\<rparr>,
       \<lparr>name = ''Bob'', lab = ''LabB'', start = 21000000000,
         finish_estimation = 22800000000, duration_estimation = 30\<rparr>,
       \<lparr>name = ''Carol'', lab = ''LabC'', start = 31800000000,
         finish_estimation = 33600000000, duration_estimation = 30\<rparr>] = [0, 1] \<and>
   remove_old_entry 0
      [\<lparr>name = ''Alice'', lab = ''LabA'', start = 20400000000,
         finish_estimation = 22200000000, duration_estimation = 30\<rparr>,
       \<lparr>name = ''Bob'', lab = ''LabB'', start = 21000000000,
         finish_estimation = 22800000000, duration_estimation = 30\<rparr>,
       \<lparr>name = ''Carol'', lab = ''LabC'', start = 31800000000,
         finish_estimation = 33600000000, duration_estimation = 30\<rparr>]
      \<lparr>worksheet_active =
         [\<lparr>name = ''Alice'', lab = ''LabA'', start = 20400000000,
         finish_estimation = 22200000000, duration_estimation = 30\<rparr>,
       \<lparr>name = ''Bob'', lab = ''LabB'', start = 21000000000,
         finish_estimation = 22800000000, duration_estimation = 30\<rparr>,
       \<lparr>name = ''Carol'', lab = ''LabC'', start = 31800000000,
         finish_estimation = 33600000000, duration_estimation = 30\<rparr>],
       worksheet_log =
         [],
       calls = []\<rparr> =
     \<lparr>worksheet_active =
        [\<lparr>name = ''Bob'', lab = ''LabB'', start = 21000000000,
         finish_estimation = 22800000000, duration_estimation = 30\<rparr>],
      worksheet_log = [],
      calls = [Delete_rows_active 2, Delete_rows_active 3]\<rparr> \<and>
   worksheet_active
     (delete_entries [1, 0]
       \<lparr>worksheet_active =
         [\<lparr>name = ''Alice'', lab = ''LabA'', start = 20400000000,
         finish_estimation = 22200000000, duration_estimation = 30\<rparr>,
       \<lparr>name = ''Bob'', lab = ''LabB'', start = 21000000000,
         finish_estimation = 22800000000, duration_estimation = 30\<rparr>,
       \<lparr>name = ''Carol'', lab = ''LabC'', start = 31800000000,
         finish_estimation = 33600000000, duration_estimation = 30\<rparr>],
       worksheet_log =
         [],
       calls = []\<rparr>) =
     [\<lparr>name = ''Carol'', lab = ''LabC'', start = 31800000000,
         finish_estimation = 33600000000, duration_estimation = 30\<rparr>]"
  by code_simp

text \<open>
  C4. The selection of the old entries is strict (\<open>old_entries_iff\<close>: an age of more
  than 180 minutes), but the rows that the sweep removes are not the selected ones when
  more than one is selected. With Alice and Bob aged 181 minutes and Carol aged 179
  minutes, the sweep removes Alice and Carol and keeps Bob.
\<close>

theorem eviction_removes_session_aged_179:
  "old_entries (datetime_now TIMEZONE_OFFSET 0)
      [\<lparr>name = ''Alice'', lab = ''LabA'', start = 21540000000,
         finish_estimation = 23340000000, duration_estimation = 30\<rparr>,
       \<lparr>name = ''Bob'', lab = ''LabB'', start = 21540000000,
         finish_estimation = 23340000000, duration_estimation = 30\<rparr>,
       \<lparr>name = ''Carol'', lab = ''LabC'', start = 21660000000,
         finish_estimation = 23460000000, duration_estimation = 30\<rparr>] = [0, 1] \<and>
   remove_old_entry 0
      [\<lparr>name = ''Alice'', lab = ''LabA'', start = 21540000000,
         finish_estimation = 23340000000, duration_estimation = 30\<rparr>,
       \<lparr>name = ''Bob'', lab = ''LabB'', start = 21540000000,
         finish_estimation = 23340000000, duration_estimation = 30\<rparr>,
       \<lparr>name = ''Carol'', lab = ''LabC'', start = 21660000000,
         finish_estimation = 23460000000, duration_estimation = 30\<rparr>]
      \<lparr>worksheet_active =
         [\<lparr>name = ''Alice'', lab = ''LabA'', start = 21540000000,
         finish_estimation = 23340000000, duration_estimation = 30\<rparr>,
       \<lparr>name = ''Bob'', lab = ''LabB'', start = 21540000000,
         finish_estimation = 23340000000, duration_estimation = 30\<rparr>,
       \<lparr>name = ''Carol'', lab = ''LabC'', start = 21660000000,
         finish_estimation = 23460000000, duration_estimation = 30\<rparr>],
       worksheet_log =
         [],
       calls = []\<rparr> =
     \<lparr>worksheet_active =
        [\<lparr>name = ''Bob'', lab = ''LabB'', start = 21540000000,
         finish_estimation = 23340000000, duration_estimation = 30\<rparr>],
      worksheet_log = [],
      calls = [Delete_rows_active 2, Delete_rows_active 3]\<rparr>"
  by code_simp

end
